theory Spec2Isabelle
  imports Main
begin

section \<open>Data model of bot.py\<close>

text \<open>
  A Telegram user identifier (\<^verbatim>\<open>update.effective_user.id\<close>) is a Python int.  A message
  is the dict \<^verbatim>\<open>{"role": ..., "content": ...}\<close>; the content of an assistant message is
  whatever \<^verbatim>\<open>response.choices[0].message.content\<close> holds, which the client library types as
  an optional string, so \<open>content\<close> is a \<open>string option\<close> (\<open>None\<close> is Python's None).
  Each \<open>char\<close> of a \<open>string\<close> stands for one character of a Python str.
\<close>

type_synonym user_id = int

record message =
  role :: string
  content :: "string option"

text \<open>The dict \<^verbatim>\<open>user_context\<close>: user identifier to list of messages.\<close>

type_synonym store = "user_id \<rightharpoonup> message list"

definition user_context :: store where
  "user_context = Map.empty"

definition SYSTEM_PROMPT :: string where
  "SYSTEM_PROMPT =
     ''You are a helpful and friendly AI assistant. You have memory of our conversation, ''
     @ [CHR 0x0A]
     @ ''so you can reference previous messages and provide contextual responses. Always be polite and clear.''"

definition MAX_CONTEXT_LENGTH :: int where
  "MAX_CONTEXT_LENGTH = 20"

definition system_message :: message where
  "system_message = \<lparr>role = ''system'', content = Some SYSTEM_PROMPT\<rparr>"

definition user_message :: "string \<Rightarrow> message" where
  "user_message text = \<lparr>role = ''user'', content = Some text\<rparr>"

definition assistant_message :: "string option \<Rightarrow> message" where
  "assistant_message bot_response = \<lparr>role = ''assistant'', content = bot_response\<rparr>"

section \<open>The completion backend and the transport, as the handler sees them\<close>

text \<open>
  One call of \<^verbatim>\<open>client.chat.completions.create\<close> either raises (connection failure,
  timeout, error status: all subclasses of Exception; \<open>Raises e\<close> carries \<open>str(e)\<close>) or
  returns a response, of which the handler reads \<^verbatim>\<open>choices[i].message.content\<close> only:
  \<open>Response cs\<close> carries the list of these contents.  The backend is a parameter of the
  handler: a function from the messages sent to the outcome of the call.

  The handler answers through \<^verbatim>\<open>update.message.reply_text\<close>: \<open>Answer r\<close> is the reply
  \<open>r\<close> of the model, \<open>ErrorNotice d\<close> is the fixed error text followed by the detail
  \<open>d = str(e)[:100]\<close>.  The calls into the transport are taken to return normally.
\<close>

datatype completion = Raises string | Response "string option list"

type_synonym backend = "message list \<Rightarrow> completion"

datatype reply = Answer string | ErrorNotice string

text \<open>\<open>str(e)\<close> of the IndexError of \<^verbatim>\<open>response.choices[0]\<close> on an empty list.\<close>

definition index_error :: string where
  "index_error = ''list index out of range''"

text \<open>\<open>str(e)\<close> of the TypeError of \<^verbatim>\<open>bot_response[:50]\<close> when the content is None.\<close>

definition none_type_error :: string where
  "none_type_error = [CHR 0x27] @ ''NoneType'' @ [CHR 0x27] @ '' object is not subscriptable''"

section \<open>Operations\<close>

text \<open>Python's \<^verbatim>\<open>xs[i:]\<close>: a negative start counts from the end and is clamped at 0.\<close>

definition slice_from :: "int \<Rightarrow> 'a list \<Rightarrow> 'a list" where
  "slice_from i xs =
     (if i < 0 then drop (nat (int (length xs) + i)) xs else drop (nat i) xs)"

text \<open>\<^verbatim>\<open>user_context.get(user_id, [])\<close> (line 78).\<close>

definition get_context :: "store \<Rightarrow> user_id \<Rightarrow> message list" where
  "get_context s u = (case s u of None \<Rightarrow> [] | Some ctx \<Rightarrow> ctx)"

text \<open>\<^verbatim>\<open>start\<close> (lines 31-48): the context is replaced by the system message alone.\<close>

definition start :: "store \<Rightarrow> user_id \<Rightarrow> store" where
  "start s u = s(u \<mapsto> [system_message])"

text \<open>
  \<^verbatim>\<open>clear\<close> (lines 70-89): \<open>messages_count\<close> is computed from the old context, then the
  context is replaced; the count is what the reply reports as removed.
\<close>

definition clear :: "store \<Rightarrow> user_id \<Rightarrow> store \<times> int" where
  "clear s u =
     (let messages_count = int (length (get_context s u)) - 1
      in (s(u \<mapsto> [system_message]), messages_count))"

text \<open>
  Lines 112-114: when the context is longer than the bound it becomes its element 0
  followed by the slice \<^verbatim>\<open>[-(MAX_CONTEXT_LENGTH-1):]\<close>.  Element 0 exists in that branch.
\<close>

definition trim_context :: "message list \<Rightarrow> message list" where
  "trim_context ctx =
     (if int (length ctx) > MAX_CONTEXT_LENGTH
      then [ctx ! 0] @ slice_from (- (MAX_CONTEXT_LENGTH - 1)) ctx
      else ctx)"

text \<open>
  Lines 104-114 on one user's context: a new user gets the system message
  (\<open>context_or_new\<close>, lines 104-105), the user's message is appended (line 109), the
  context is trimmed (lines 112-113).  The result is the context stored for the user when
  the backend is called, and the \<^verbatim>\<open>messages\<close> argument of that call.
\<close>

definition context_or_new :: "store \<Rightarrow> user_id \<Rightarrow> message list" where
  "context_or_new s u = (case s u of None \<Rightarrow> [system_message] | Some ctx \<Rightarrow> ctx)"

definition user_turn_context :: "store \<Rightarrow> user_id \<Rightarrow> string \<Rightarrow> message list" where
  "user_turn_context s u text = trim_context (context_or_new s u @ [user_message text])"

definition add_user_message :: "store \<Rightarrow> user_id \<Rightarrow> string \<Rightarrow> store" where
  "add_user_message s u text = s(u \<mapsto> user_turn_context s u text)"

text \<open>
  The body of the \<^verbatim>\<open>try\<close> (lines 123-137) on the user's context: the context it leaves,
  and either the exception it raised (\<open>Inl\<close>, carrying \<open>str(e)\<close>) or the reply sent.
  The assistant message is appended (line 133) before \<^verbatim>\<open>bot_response[:50]\<close> is evaluated
  for the log (line 135), which raises a TypeError on None.
\<close>

definition try_completion :: "backend \<Rightarrow> message list \<Rightarrow> message list \<times> (string + string)" where
  "try_completion client ctx =
     (case client ctx of
        Raises e \<Rightarrow> (ctx, Inl e)
      | Response choices \<Rightarrow>
          (case choices of
             [] \<Rightarrow> (ctx, Inl index_error)
           | bot_response # _ \<Rightarrow>
               (let ctx' = ctx @ [assistant_message bot_response]
                in case bot_response of
                     None \<Rightarrow> (ctx', Inl none_type_error)
                   | Some r \<Rightarrow> (ctx', Inr r))))"

text \<open>
  \<^verbatim>\<open>handle_message\<close> (lines 91-149): the new store and what is sent to the user.  The
  \<^verbatim>\<open>except Exception\<close> clause turns every exception of the body into the error notice.
\<close>

definition handle_message :: "backend \<Rightarrow> store \<Rightarrow> user_id \<Rightarrow> string \<Rightarrow> store \<times> reply" where
  "handle_message client s u text =
     (case try_completion client (user_turn_context s u text) of
        (ctx', Inr bot_response) \<Rightarrow> (s(u \<mapsto> ctx'), Answer bot_response)
      | (ctx', Inl e) \<Rightarrow> (s(u \<mapsto> ctx'), ErrorNotice (take 100 e)))"

text \<open>
  The updates the application dispatches (lines 158-166); a text message comes with the
  behaviour of the backend at that moment.  \<^verbatim>\<open>help_command\<close> touches no state.
\<close>

datatype update =
    StartCommand user_id
  | HelpCommand user_id
  | ClearCommand user_id
  | TextMessage user_id string backend

fun process_update :: "store \<Rightarrow> update \<Rightarrow> store" where
  "process_update s (StartCommand u) = start s u"
| "process_update s (HelpCommand u) = s"
| "process_update s (ClearCommand u) = fst (clear s u)"
| "process_update s (TextMessage u text client) = fst (handle_message client s u text)"

text \<open>The store after a sequence of updates, from the empty dict of line 23.\<close>

definition run_updates :: "update list \<Rightarrow> store" where
  "run_updates us = foldl process_update user_context us"

section \<open>Backends and an invariant used in the proofs\<close>

text \<open>Two behaviours of the backend: it answers with one choice, or the call raises.\<close>

definition replying :: "string \<Rightarrow> backend" where
  "replying r = (\<lambda>messages. Response [Some r])"

definition failing :: "string \<Rightarrow> backend" where
  "failing e = (\<lambda>messages. Raises e)"


section \<open>Concrete inputs\<close>

text \<open>
  Twelve question/answer pairs; for user 1: ten answered turns, nineteen failed turns, and
  one failed turn followed by the twelve answered ones.
\<close>

definition twelve :: "(string \<times> string) list" where
  "twelve = [(''q1'', ''a1''), (''q2'', ''a2''), (''q3'', ''a3''), (''q4'', ''a4''),
     (''q5'', ''a5''), (''q6'', ''a6''), (''q7'', ''a7''), (''q8'', ''a8''),
     (''q9'', ''a9''), (''q10'', ''a10''), (''q11'', ''a11''), (''q12'', ''a12'')]"

definition ten_answered :: "update list" where
  "ten_answered = replicate 10 (TextMessage 1 ''hi'' (replying ''ok''))"

definition nineteen_failed :: "update list" where
  "nineteen_failed = replicate 19 (TextMessage 1 ''hi'' (failing ''timeout''))"

definition failed_then_twelve :: "update list" where
  "failed_then_twelve =
     TextMessage 1 ''q0'' (failing ''timeout'')
     # map (\<lambda>(t, r). TextMessage 1 t (replying r)) twelve"

section \<open>Trimming and the context of a turn\<close>

lemma trim_context_long:
  assumes "int (length (m # h)) > MAX_CONTEXT_LENGTH"
  shows "trim_context (m # h) = m # drop (length h - 19) h"
proof -
  from assms have len: "19 < length h"
    by (simp add: MAX_CONTEXT_LENGTH_def)
  then have "length h - 18 = Suc (length h - 19)"
    by arith
  with len assms show ?thesis
    by (simp add: trim_context_def slice_from_def MAX_CONTEXT_LENGTH_def nat_diff_distrib')
qed

lemma trim_context_short:
  "int (length ctx) \<le> MAX_CONTEXT_LENGTH \<Longrightarrow> trim_context ctx = ctx"
  by (simp add: trim_context_def)

lemma user_turn_context_eq:
  assumes "context_or_new s u = m # h"
  shows "user_turn_context s u text =
         m # drop (length h + 1 - 19) (h @ [user_message text])"
proof (cases "int (length ((m # h) @ [user_message text])) > MAX_CONTEXT_LENGTH")
  case True
  then have "trim_context (m # (h @ [user_message text])) =
             m # drop (length (h @ [user_message text]) - 19) (h @ [user_message text])"
    by (intro trim_context_long) simp
  with assms show ?thesis
    by (simp add: user_turn_context_def)
next
  case False
  then have "length h + 1 \<le> 19"
    by (simp add: MAX_CONTEXT_LENGTH_def)
  with False assms show ?thesis
    by (simp add: user_turn_context_def trim_context_short)
qed

lemma length_trim_context:
  "ctx \<noteq> [] \<Longrightarrow> int (length (trim_context ctx)) = min (int (length ctx)) MAX_CONTEXT_LENGTH"
  by (auto simp: trim_context_def slice_from_def MAX_CONTEXT_LENGTH_def)

lemma length_user_turn_context:
  "int (length (user_turn_context s u text)) =
     min (int (length (context_or_new s u)) + 1) MAX_CONTEXT_LENGTH"
  by (simp add: user_turn_context_def length_trim_context)

lemma keep_last_append:
  "drop (length (drop (length A - n) A @ B) - n) (drop (length A - n) A @ B)
   = drop (length (A @ B) - n) (A @ B)"
  by (cases "length A \<le> n") (auto simp: add.commute)

lemma turn_answered:
  assumes base: "context_or_new s u = m # h"
    and client: "client (user_turn_context s u text) = Response (Some r # cs)"
    and len: "length h \<le> 20"
  shows "context_or_new (fst (handle_message client s u text)) u =
         m # drop (length (h @ [user_message text, assistant_message (Some r)]) - 20)
               (h @ [user_message text, assistant_message (Some r)])"
proof -
  have "context_or_new (fst (handle_message client s u text)) u =
        user_turn_context s u text @ [assistant_message (Some r)]"
    using client by (simp add: handle_message_def try_completion_def context_or_new_def)
  also have "\<dots> = m # drop (length h + 1 - 19) (h @ [user_message text]) @ [assistant_message (Some r)]"
    by (simp add: user_turn_context_eq [OF base])
  also have "drop (length h + 1 - 19) (h @ [user_message text]) @ [assistant_message (Some r)]
             = drop (length h + 1 - 19) ((h @ [user_message text]) @ [assistant_message (Some r)])"
    by simp
  finally show ?thesis
    by simp
qed

lemma dialogue_context:
  assumes "context_or_new s u = m # h" and "length h \<le> 20"
  shows "context_or_new
           (foldl process_update s (map (\<lambda>(t, r). TextMessage u t (replying r)) turns)) u =
         m # drop (length (h @ concat (map (\<lambda>(t, r). [user_message t, assistant_message (Some r)]) turns)) - 20)
               (h @ concat (map (\<lambda>(t, r). [user_message t, assistant_message (Some r)]) turns))"
  using assms
proof (induction turns arbitrary: s h)
  case Nil
  then show ?case by simp
next
  case (Cons p turns)
  obtain t r where p: "p = (t, r)" by (cases p)
  let ?s1 = "fst (handle_message (replying r) s u t)"
  let ?h1 = "drop (length (h @ [user_message t, assistant_message (Some r)]) - 20)
               (h @ [user_message t, assistant_message (Some r)])"
  have s1: "context_or_new ?s1 u = m # ?h1"
    using Cons.prems by (intro turn_answered [where cs = "[]"]) (simp_all add: replying_def)
  have "length ?h1 \<le> 20" by simp
  from Cons.IH [OF s1 this]
  show ?case
    unfolding p
    using keep_last_append [of "h @ [user_message t, assistant_message (Some r)]" 20
        "concat (map (\<lambda>(t, r). [user_message t, assistant_message (Some r)]) turns)"]
    by simp
qed

text \<open>
  The trim in isolation, and the context of a turn that follows twelve answered turns of a
  new user: a context longer than \<open>MAX_CONTEXT_LENGTH\<close> becomes its element 0 followed by
  its last \<open>MAX_CONTEXT_LENGTH - 1\<close> elements in their order, and the thirteenth user
  message leaves the system message followed by the last 19 of the 25 messages.
\<close>

lemma fifo_trim:
  "(MAX_CONTEXT_LENGTH < int (length (m # h)) \<longrightarrow>
      trim_context (m # h) = m # drop (length h - nat (MAX_CONTEXT_LENGTH - 1)) h
      \<and> int (length (trim_context (m # h))) = MAX_CONTEXT_LENGTH)
   \<and> (s u = None \<and> length turns = 12 \<longrightarrow>
        user_turn_context
          (foldl process_update s (map (\<lambda>(t, r). TextMessage u t (replying r)) turns)) u text =
        system_message #
          drop 6 (concat (map (\<lambda>(t, r). [user_message t, assistant_message (Some r)]) turns)
                  @ [user_message text]))"
proof (intro conjI impI)
  assume long: "MAX_CONTEXT_LENGTH < int (length (m # h))"
  then show "trim_context (m # h) = m # drop (length h - nat (MAX_CONTEXT_LENGTH - 1)) h"
    by (simp add: trim_context_long) (simp add: MAX_CONTEXT_LENGTH_def)
  from long show "int (length (trim_context (m # h))) = MAX_CONTEXT_LENGTH"
    by (simp add: length_trim_context)
next
  let ?d = "concat (map (\<lambda>(t, r). [user_message t, assistant_message (Some r)]) turns)"
  let ?s = "foldl process_update s (map (\<lambda>(t, r). TextMessage u t (replying r)) turns)"
  assume "s u = None \<and> length turns = 12"
  then have fresh: "context_or_new s u = system_message # []" and n: "length turns = 12"
    by (simp_all add: context_or_new_def)
  have len: "length ?d = 2 * length turns"
    by (induction turns) auto
  have "context_or_new ?s u = system_message # drop (length ([] @ ?d) - 20) ([] @ ?d)"
    by (rule dialogue_context [OF fresh]) simp
  then have "context_or_new ?s u = system_message # drop 4 ?d"
    by (simp add: len n)
  from user_turn_context_eq [OF this, of "text"]
  show "user_turn_context ?s u text = system_message # drop 6 (?d @ [user_message text])"
    by (simp add: len n)
qed

section \<open>The invariant holds in every reachable store\<close>






lemma handle_message_stored:
  "fst (handle_message client s u text) = s(u \<mapsto> user_turn_context s u text)
   \<or> (\<exists>c. fst (handle_message client s u text) =
             s(u \<mapsto> user_turn_context s u text @ [assistant_message c]))"
  by (cases "client (user_turn_context s u text)")
    (auto simp: handle_message_def try_completion_def Let_def split: list.splits option.splits)






section \<open>The claims\<close>

text \<open>
  C1.  The claim bounds the context by \<open>MAX_CONTEXT_LENGTH\<close> after every append.  The
  user-message append is followed by the trim (lines 109-114); the assistant-reply append
  (line 133) is not.  Ten answered turns of a new user store 21 messages, one more than
  \<open>MAX_CONTEXT_LENGTH\<close>: the system message at index 0, then ten times the user's message
  and the assistant's reply.
\<close>

theorem stored_context_exceeds_bound:
  "length (get_context (run_updates ten_answered) 1) = 21
   \<and> \<not> int (length (get_context (run_updates ten_answered) 1)) \<le> MAX_CONTEXT_LENGTH
   \<and> get_context (run_updates ten_answered) 1 ! 0 = \<lparr>role = ''system'', content = Some SYSTEM_PROMPT\<rparr>
   \<and> get_context (run_updates ten_answered) 1 ! 19 = \<lparr>role = ''user'', content = Some ''hi''\<rparr>
   \<and> get_context (run_updates ten_answered) 1 ! 20 = \<lparr>role = ''assistant'', content = Some ''ok''\<rparr>"
  by code_simp

text \<open>
  C2.  The claim says that after 25 user/assistant appends the context is the system
  message followed by the most recent 19 messages.  One failed turn followed by twelve
  answered turns of a new user makes 25 appends, the last one an assistant reply, which no
  trim follows: the stored context is the system message followed by the most recent 20
  messages, 21 in all.
\<close>

theorem context_after_25_appends:
  "get_context (run_updates failed_then_twelve) 1 =
       [\<lparr>role = ''system'', content = Some SYSTEM_PROMPT\<rparr>,
        \<lparr>role = ''user'', content = Some ''q3''\<rparr>,
        \<lparr>role = ''assistant'', content = Some ''a3''\<rparr>,
        \<lparr>role = ''user'', content = Some ''q4''\<rparr>,
        \<lparr>role = ''assistant'', content = Some ''a4''\<rparr>,
        \<lparr>role = ''user'', content = Some ''q5''\<rparr>,
        \<lparr>role = ''assistant'', content = Some ''a5''\<rparr>,
        \<lparr>role = ''user'', content = Some ''q6''\<rparr>,
        \<lparr>role = ''assistant'', content = Some ''a6''\<rparr>,
        \<lparr>role = ''user'', content = Some ''q7''\<rparr>,
        \<lparr>role = ''assistant'', content = Some ''a7''\<rparr>,
        \<lparr>role = ''user'', content = Some ''q8''\<rparr>,
        \<lparr>role = ''assistant'', content = Some ''a8''\<rparr>,
        \<lparr>role = ''user'', content = Some ''q9''\<rparr>,
        \<lparr>role = ''assistant'', content = Some ''a9''\<rparr>,
        \<lparr>role = ''user'', content = Some ''q10''\<rparr>,
        \<lparr>role = ''assistant'', content = Some ''a10''\<rparr>,
        \<lparr>role = ''user'', content = Some ''q11''\<rparr>,
        \<lparr>role = ''assistant'', content = Some ''a11''\<rparr>,
        \<lparr>role = ''user'', content = Some ''q12''\<rparr>,
        \<lparr>role = ''assistant'', content = Some ''a12''\<rparr>]
   \<and> length (get_context (run_updates failed_then_twelve) 1) = 21"
  by code_simp

text \<open>
  C3, as the code has it.  When the call of the backend raises, or its response has no
  choices, the store after the turn is the store right after the user-message append: no
  assistant message is appended and the user's message is kept, the length of the user's
  context is the length before the append plus one, capped at \<open>MAX_CONTEXT_LENGTH\<close> by the
  trim, and the user is sent an error notice, not an answer.
\<close>

theorem failed_turn_keeps_user_message:
  assumes "client (user_turn_context s u text) = Raises e
           \<or> client (user_turn_context s u text) = Response []"
  shows "fst (handle_message client s u text) = add_user_message s u text
     \<and> get_context (fst (handle_message client s u text)) u = user_turn_context s u text
     \<and> int (length (get_context (fst (handle_message client s u text)) u))
         = min (int (length (context_or_new s u)) + 1) MAX_CONTEXT_LENGTH
     \<and> (\<exists>d. snd (handle_message client s u text) = ErrorNotice d)"
proof -
  from assms have st: "fst (handle_message client s u text) = add_user_message s u text"
    and out: "\<exists>d. snd (handle_message client s u text) = ErrorNotice d"
    by (auto simp: handle_message_def try_completion_def add_user_message_def)
  have "get_context (add_user_message s u text) u = user_turn_context s u text"
    by (simp add: get_context_def add_user_message_def)
  with st out show ?thesis
    by (simp add: length_user_turn_context)
qed

theorem failed_turn_keeps_user_message_witness:
  "failing ''timeout'' (user_turn_context user_context 1 ''hello'') = Raises ''timeout''
   \<and> fst (handle_message (failing ''timeout'') user_context 1 ''hello'') 1
        = Some [system_message, user_message ''hello'']
   \<and> length (get_context (fst (handle_message (failing ''timeout'') user_context 1 ''hello'')) 1) = 2
   \<and> (\<exists>d. snd (handle_message (failing ''timeout'') user_context 1 ''hello'') = ErrorNotice d)"
proof -
  have f: "failing ''timeout'' (user_turn_context user_context 1 ''hello'') = Raises ''timeout''"
    by (simp add: failing_def)
  have c: "user_turn_context user_context 1 ''hello'' = [system_message, user_message ''hello'']"
    by (simp add: user_turn_context_def context_or_new_def user_context_def trim_context_def
        MAX_CONTEXT_LENGTH_def)
  from failed_turn_keeps_user_message [of "failing ''timeout''" user_context 1 "''hello''" "''timeout''"] f
  have "fst (handle_message (failing ''timeout'') user_context 1 ''hello'')
          = add_user_message user_context 1 ''hello''"
    and "get_context (fst (handle_message (failing ''timeout'') user_context 1 ''hello'')) 1
          = user_turn_context user_context 1 ''hello''"
    and "\<exists>d. snd (handle_message (failing ''timeout'') user_context 1 ''hello'') = ErrorNotice d"
    by blast+
  with f c show ?thesis
    by (simp add: add_user_message_def)
qed

text \<open>
  The length is not always the length before the turn plus one: after nineteen failed
  turns the context has 20 elements, and it still has 20 after one more failed turn, since
  the append is followed by the trim.
\<close>

theorem failed_turn_length_counterexample:
  "\<not> length (get_context (fst (handle_message (failing ''timeout'')
          (run_updates nineteen_failed) 1 ''again'')) 1)
      = length (get_context (run_updates nineteen_failed) 1) + 1"
  by code_simp

text \<open>
  C4.  Whatever the backend does, the handler returns normally with an answer or an error
  notice.  An exception of the call, the IndexError of a response with no choices and the
  TypeError of a None content each become an error notice whose detail is the first 100
  characters of \<open>str(e)\<close>; every error notice has a detail of at most 100 characters; an
  answer is sent only for a response whose first choice has a text content.
\<close>

theorem backend_failures_caught:
  "(case client (user_turn_context s u text) of
      Raises e \<Rightarrow> snd (handle_message client s u text) = ErrorNotice (take 100 e)
    | Response [] \<Rightarrow> snd (handle_message client s u text) = ErrorNotice (take 100 index_error)
    | Response (None # cs) \<Rightarrow>
        snd (handle_message client s u text) = ErrorNotice (take 100 none_type_error)
    | Response (Some r # cs) \<Rightarrow> snd (handle_message client s u text) = Answer r)
   \<and> (case snd (handle_message client s u text) of
         ErrorNotice d \<Rightarrow> length d \<le> 100
       | Answer r \<Rightarrow> (\<exists>cs. client (user_turn_context s u text) = Response (Some r # cs)))"
  by (cases "client (user_turn_context s u text)")
    (auto simp: handle_message_def try_completion_def Let_def split: list.splits option.splits)

theorem backend_failures_caught_witness:
  "snd (handle_message (failing (replicate 120 CHR ''x'')) user_context 1 ''hello'')
     = ErrorNotice (replicate 100 CHR ''x'')
   \<and> snd (handle_message (\<lambda>messages. Response []) user_context 1 ''hello'')
     = ErrorNotice ''list index out of range''"
proof -
  from backend_failures_caught [of "failing (replicate 120 CHR ''x'')" user_context 1 "''hello''"]
  have "snd (handle_message (failing (replicate 120 CHR ''x'')) user_context 1 ''hello'')
     = ErrorNotice (take 100 (replicate 120 CHR ''x''))"
    by (simp add: failing_def)
  moreover
  from backend_failures_caught [of "\<lambda>messages. Response []" user_context 1 "''hello''"]
  have "snd (handle_message (\<lambda>messages. Response []) user_context 1 ''hello'')
     = ErrorNotice (take 100 index_error)"
    by simp
  ultimately show ?thesis
    by (simp add: index_error_def)
qed

text \<open>
  C5.  For a user whose stored context is \<open>m # h\<close>, \<^verbatim>\<open>clear\<close> reports \<open>length h\<close>
  removed messages, the number of messages behind element 0.  For a user with no context
  it computes \<^verbatim>\<open>len(user_context.get(user_id, [])) - 1\<close> from the default \<^verbatim>\<open>[]\<close> and
  reports \<open>- 1\<close>, not 0.
\<close>

theorem clear_without_context_reports_minus_one:
  "snd (clear user_context 7) = - 1
   \<and> snd (clear (s(u \<mapsto> m # h)) u) = int (length h)"
  by (simp add: clear_def get_context_def user_context_def)


text \<open>
  C7.  \<^verbatim>\<open>start\<close>, \<^verbatim>\<open>clear\<close>, the user-message append and a whole turn of
  user \<open>a\<close> leave the entry of every other user \<open>b\<close> as it was, so the count that
  \<^verbatim>\<open>clear\<close> would report for \<open>b\<close> is unchanged too.
\<close>

theorem other_users_untouched:
  assumes "b \<noteq> a"
  shows "start s a b = s b
    \<and> fst (clear s a) b = s b
    \<and> add_user_message s a text b = s b
    \<and> fst (handle_message client s a text) b = s b
    \<and> get_context (fst (handle_message client s a text)) b = get_context s b
    \<and> snd (clear (fst (handle_message client s a text)) b) = snd (clear s b)"
proof -
  from handle_message_stored [of client s a "text"] assms
  have "fst (handle_message client s a text) b = s b"
    by auto
  with assms show ?thesis
    by (simp add: start_def clear_def add_user_message_def get_context_def)
qed

theorem other_users_untouched_witness:
  "(2::int) \<noteq> 1
   \<and> start (start user_context 2) 1 2 = Some [system_message]
   \<and> fst (clear (start user_context 2) 1) 2 = Some [system_message]
   \<and> fst (handle_message (replying ''ok'') (start user_context 2) 1 ''hi'') 2 = Some [system_message]
   \<and> fst (handle_message (replying ''ok'') (start user_context 2) 1 ''hi'') 1
       = Some [system_message, user_message ''hi'', assistant_message (Some ''ok'')]"
proof -
  have ne: "(2::int) \<noteq> 1" by simp
  have s2: "start user_context 2 2 = Some [system_message]"
    by (simp add: start_def)
  have own: "fst (handle_message (replying ''ok'') (start user_context 2) 1 ''hi'') 1
       = Some [system_message, user_message ''hi'', assistant_message (Some ''ok'')]"
    by (simp add: handle_message_def try_completion_def replying_def user_turn_context_def
        context_or_new_def start_def user_context_def trim_context_def MAX_CONTEXT_LENGTH_def)
  from other_users_untouched [OF ne, of "start user_context 2" "''hi''" "replying ''ok''"] ne s2 own
  show ?thesis
    by simp
qed

text \<open>
  C8.  A user with no context sends "hello" and the backend's first choice is "hi there":
  the context after the user-message append is the system message and the message of role
  user and content "hello"; the turn stores these two and the message of role assistant
  and content "hi there", and answers "hi there"; a \<^verbatim>\<open>clear\<close> after it reports 2
  removed messages and leaves the system message alone.
\<close>

theorem hello_scenario:
  assumes "s a = None"
    and "client [\<lparr>role = ''system'', content = Some SYSTEM_PROMPT\<rparr>,
              \<lparr>role = ''user'', content = Some ''hello''\<rparr>] = Response (Some ''hi there'' # cs)"
  shows "add_user_message s a ''hello'' a = Some [\<lparr>role = ''system'', content = Some SYSTEM_PROMPT\<rparr>,
              \<lparr>role = ''user'', content = Some ''hello''\<rparr>]
    \<and> handle_message client s a ''hello'' =
        (s(a \<mapsto> [\<lparr>role = ''system'', content = Some SYSTEM_PROMPT\<rparr>,
              \<lparr>role = ''user'', content = Some ''hello''\<rparr>,
              \<lparr>role = ''assistant'', content = Some ''hi there''\<rparr>]),
         Answer ''hi there'')
    \<and> clear (fst (handle_message client s a ''hello'')) a =
        (s(a \<mapsto> [\<lparr>role = ''system'', content = Some SYSTEM_PROMPT\<rparr>]), 2)"
proof -
  from assms(1) have c: "user_turn_context s a ''hello'' = [\<lparr>role = ''system'', content = Some SYSTEM_PROMPT\<rparr>,
              \<lparr>role = ''user'', content = Some ''hello''\<rparr>]"
    by (simp add: user_turn_context_def context_or_new_def trim_context_def MAX_CONTEXT_LENGTH_def
        system_message_def user_message_def)
  with assms(2) have h: "handle_message client s a ''hello'' =
        (s(a \<mapsto> [\<lparr>role = ''system'', content = Some SYSTEM_PROMPT\<rparr>,
              \<lparr>role = ''user'', content = Some ''hello''\<rparr>,
              \<lparr>role = ''assistant'', content = Some ''hi there''\<rparr>]),
         Answer ''hi there'')"
    by (simp add: handle_message_def try_completion_def assistant_message_def)
  from c h show ?thesis
    by (simp add: add_user_message_def clear_def get_context_def system_message_def)
qed

theorem hello_scenario_witness:
  "user_context 1 = None
   \<and> replying ''hi there'' [\<lparr>role = ''system'', content = Some SYSTEM_PROMPT\<rparr>,
              \<lparr>role = ''user'', content = Some ''hello''\<rparr>] = Response [Some ''hi there'']
   \<and> add_user_message user_context 1 ''hello'' 1 = Some [\<lparr>role = ''system'', content = Some SYSTEM_PROMPT\<rparr>,
              \<lparr>role = ''user'', content = Some ''hello''\<rparr>]
   \<and> handle_message (replying ''hi there'') user_context 1 ''hello'' =
        (user_context(1 \<mapsto> [\<lparr>role = ''system'', content = Some SYSTEM_PROMPT\<rparr>,
              \<lparr>role = ''user'', content = Some ''hello''\<rparr>,
              \<lparr>role = ''assistant'', content = Some ''hi there''\<rparr>]),
         Answer ''hi there'')
   \<and> clear (fst (handle_message (replying ''hi there'') user_context 1 ''hello'')) 1
        = (user_context(1 \<mapsto> [\<lparr>role = ''system'', content = Some SYSTEM_PROMPT\<rparr>]), 2)"
proof -
  have a: "user_context 1 = None"
    by (simp add: user_context_def)
  have b: "replying ''hi there'' [\<lparr>role = ''system'', content = Some SYSTEM_PROMPT\<rparr>,
              \<lparr>role = ''user'', content = Some ''hello''\<rparr>] = Response (Some ''hi there'' # [])"
    by (simp add: replying_def)
  from hello_scenario [of user_context 1 "replying ''hi there''" "[]"] a b show ?thesis
    by blast
qed


end
